theory Spec2Isabelle
  imports Complex_Main
begin

section \<open>Values, exceptions and the library operations the code calls\<close>

text \<open>
  The program is numeric Python over floats and numpy arrays. Floats are idealised as
  exact reals (no rounding, no overflow). Coordinates and parameters are finite by type
  (\<open>real\<close>); what a division yields is a \<open>fl\<close>, which is either a finite real or
  \<open>NonFinite\<close>, standing for any of inf, -inf and nan. The code only ever adds to a value
  obtained from a division, and an addition with a non-finite operand is non-finite.
\<close>

datatype pyerr = AttributeError | TypeError | ValueError | ZeroDivisionError

datatype fl = Finite real | NonFinite

text \<open>
  A value is a Python float or a numpy array, the array given by its shape and its
  elements in row-major order. A numpy scalar is the array of shape \<open>[]\<close>.
\<close>

datatype 'a pyval = PyFloat 'a | NdArray "nat list" "'a list"

text \<open>The attribute \<open>shape\<close>, which a Python float does not have.\<close>

fun shape :: "'a pyval \<Rightarrow> pyerr + nat list" where
  "shape (PyFloat a) = Inl AttributeError"
| "shape (NdArray s xs) = Inr s"

fun cell :: "'a pyval \<Rightarrow> nat \<Rightarrow> 'a" where
  "cell (PyFloat a) k = a"
| "cell (NdArray s xs) k = xs ! k"

definition pybind :: "pyerr + 'a \<Rightarrow> ('a \<Rightarrow> pyerr + 'b) \<Rightarrow> pyerr + 'b" where
  "pybind m f = (case m of Inl e \<Rightarrow> Inl e | Inr v \<Rightarrow> f v)"

subsection \<open>numpy broadcasting\<close>

text \<open>
  Shapes are aligned at their last axis; two extents are compatible when they are equal
  or one of them is 1. \<open>broadcast_dims\<close> works on the reversed shapes.
\<close>

fun broadcast_dims :: "nat list \<Rightarrow> nat list \<Rightarrow> nat list option" where
  "broadcast_dims [] ts = Some ts"
| "broadcast_dims (a # ss) [] = Some (a # ss)"
| "broadcast_dims (a # ss) (b # ts) =
     (if a = b \<or> b = 1 then map_option ((#) a) (broadcast_dims ss ts)
      else if a = 1 then map_option ((#) b) (broadcast_dims ss ts)
      else None)"

definition broadcast_shapes :: "nat list \<Rightarrow> nat list \<Rightarrow> nat list option" where
  "broadcast_shapes s t = map_option rev (broadcast_dims (rev s) (rev t))"

fun stretch :: "nat list \<Rightarrow> nat list \<Rightarrow> 'a list \<Rightarrow> 'a list" where
  "stretch (d # s) (e # r) xs =
     (if d = e
      then concat (map (\<lambda>i. stretch s r (take (prod_list s) (drop (i * prod_list s) xs))) [0..<d])
      else concat (replicate e (stretch s r xs)))"
| "stretch s r xs = xs"

definition broadcast_to :: "nat list \<Rightarrow> nat list \<Rightarrow> 'a list \<Rightarrow> 'a list" where
  "broadcast_to s r xs = stretch (replicate (length r - length s) 1 @ s) r xs"

text \<open>
  An elementwise binary operation: a Python float is applied to every element of an
  array, two arrays are broadcast to a common shape, and numpy raises ValueError when
  there is none.
\<close>

fun elementwise :: "('a \<Rightarrow> 'b \<Rightarrow> 'c) \<Rightarrow> 'a pyval \<Rightarrow> 'b pyval \<Rightarrow> pyerr + 'c pyval" where
  "elementwise f (PyFloat a) (PyFloat b) = Inr (PyFloat (f a b))"
| "elementwise f (PyFloat a) (NdArray t ys) = Inr (NdArray t (map (f a) ys))"
| "elementwise f (NdArray s xs) (PyFloat b) = Inr (NdArray s (map (\<lambda>a. f a b) xs))"
| "elementwise f (NdArray s xs) (NdArray t ys) =
     (if s = t then Inr (NdArray s (map2 f xs ys))
      else case broadcast_shapes s t of
             None \<Rightarrow> Inl ValueError
           | Some r \<Rightarrow> Inr (NdArray r (map2 f (broadcast_to s r xs) (broadcast_to t r ys))))"

subsection \<open>Arithmetic\<close>

definition py_add :: "real pyval \<Rightarrow> real pyval \<Rightarrow> pyerr + real pyval" where
  "py_add = elementwise (+)"

definition py_sub :: "real pyval \<Rightarrow> real pyval \<Rightarrow> pyerr + real pyval" where
  "py_sub = elementwise (-)"

definition py_mul :: "real pyval \<Rightarrow> real pyval \<Rightarrow> pyerr + real pyval" where
  "py_mul = elementwise (*)"

text \<open>\<open>a ** 2.\<close>, elementwise.\<close>

definition py_sq :: "real pyval \<Rightarrow> real pyval" where
  "py_sq = map_pyval (\<lambda>a. a ^ 2)"

text \<open>
  True division. Between two Python floats a zero divisor raises ZeroDivisionError; as
  soon as a numpy operand is involved the division is numpy's, which yields inf or nan
  at a zero divisor (with a warning) and does not raise.
\<close>

definition np_divide :: "real \<Rightarrow> real \<Rightarrow> fl" where
  "np_divide a b = (if b = 0 then NonFinite else Finite (a / b))"

fun py_truediv :: "real pyval \<Rightarrow> real pyval \<Rightarrow> pyerr + fl pyval" where
  "py_truediv (PyFloat a) (PyFloat b) =
     (if b = 0 then Inl ZeroDivisionError else Inr (PyFloat (Finite (a / b))))"
| "py_truediv a b = elementwise np_divide a b"

text \<open>
  \<open>math.log\<close> takes a Python float and converts an array argument with \<open>float()\<close>.
  Which arrays \<open>float()\<close> converts depends on the numpy release: before 2.4 any array of
  exactly one element (with a warning since 1.25 when it has a dimension), from 2.4 on
  only a 0-dimensional one. The rule in force is a parameter of everything that reaches
  \<open>math.log\<close>. Any other array is a TypeError, and a non-positive argument is a
  ValueError (math domain error).
\<close>

datatype scalar_conversion = Size_One_Arrays | Zero_Dim_Only

definition log_float :: "real \<Rightarrow> pyerr + real" where
  "log_float a = (if a \<le> 0 then Inl ValueError else Inr (ln a))"

fun math_log :: "scalar_conversion \<Rightarrow> real pyval \<Rightarrow> pyerr + real" where
  "math_log cv (PyFloat a) = log_float a"
| "math_log cv (NdArray s [a]) =
     (if s = [] \<or> cv = Size_One_Arrays then log_float a else Inl TypeError)"
| "math_log cv (NdArray s xs) = Inl TypeError"

text \<open>
  \<open>numpy.arctan2\<close>: the angle of the point \<open>(x, y)\<close> in \<open>(-pi, pi]\<close>, 0 at the origin,
  elementwise; on two Python floats the result is a numpy scalar.
\<close>

definition arctan2 :: "real \<Rightarrow> real \<Rightarrow> real" where
  "arctan2 y x =
     (if 0 < x then arctan (y / x)
      else if x < 0 \<and> 0 \<le> y then arctan (y / x) + pi
      else if x < 0 then arctan (y / x) - pi
      else if 0 < y then pi / 2
      else if y < 0 then - pi / 2
      else 0)"

definition np_arctan2 :: "real pyval \<Rightarrow> real pyval \<Rightarrow> pyerr + real pyval" where
  "np_arctan2 a b =
     pybind (elementwise arctan2 a b)
       (\<lambda>r. Inr (case r of PyFloat c \<Rightarrow> NdArray [] [c] | NdArray s xs \<Rightarrow> NdArray s xs))"

section \<open>Singularities (\<open>potential/d2/_point.py\<close>)\<close>

text \<open>
  The three classes have the same constructor, which assigns exactly the attributes
  \<open>x\<close>, \<open>y\<close>, \<open>strength\<close> and \<open>default_color\<close>. Reading one of these is a field
  selection. Reading any other name goes through \<open>getattr\<close>, which fails with
  AttributeError for a name the constructor did not assign.
\<close>

datatype pclass = PointDoublet | PointSource | PointVortex

record point =
  pt_cls :: pclass
  pt_x :: real
  pt_y :: real
  pt_strength :: real
  pt_default_color :: string

definition PointDoublet_init :: "real \<Rightarrow> real \<Rightarrow> real \<Rightarrow> string \<Rightarrow> point" where
  "PointDoublet_init x y strength default_color =
     \<lparr>pt_cls = PointDoublet, pt_x = x, pt_y = y, pt_strength = strength,
      pt_default_color = default_color\<rparr>"

definition PointSource_init :: "real \<Rightarrow> real \<Rightarrow> real \<Rightarrow> string \<Rightarrow> point" where
  "PointSource_init x y strength default_color =
     \<lparr>pt_cls = PointSource, pt_x = x, pt_y = y, pt_strength = strength,
      pt_default_color = default_color\<rparr>"

definition PointVortex_init :: "real \<Rightarrow> real \<Rightarrow> real \<Rightarrow> string \<Rightarrow> point" where
  "PointVortex_init x y strength default_color =
     \<lparr>pt_cls = PointVortex, pt_x = x, pt_y = y, pt_strength = strength,
      pt_default_color = default_color\<rparr>"

datatype attr = AFloat real | AStr string

definition getattr :: "point \<Rightarrow> string \<Rightarrow> pyerr + attr" where
  "getattr self name =
     (if name = ''x'' then Inr (AFloat (pt_x self))
      else if name = ''y'' then Inr (AFloat (pt_y self))
      else if name = ''strength'' then Inr (AFloat (pt_strength self))
      else if name = ''default_color'' then Inr (AStr (pt_default_color self))
      else Inl AttributeError)"

text \<open>An arithmetic operand has to be a number: a string operand is a TypeError.\<close>

fun float_operand :: "attr \<Rightarrow> pyerr + real" where
  "float_operand (AFloat a) = Inr a"
| "float_operand (AStr s) = Inl TypeError"

subsection \<open>PointDoublet\<close>

text \<open>
  \<^verbatim>\<open>xrel = x - self.x
yrel = y - self.y
u = -self.strength / 2. / pi * (xrel**2. - y**2.) / (xrel**2. + yrel**2.)**2.
v = -self.strength / 2. / pi * 2. * xrel * yrel   / (xrel**2. + yrel**2.)**2.
return u, v\<close>
  The numerator of \<open>u\<close> is written with \<open>y\<close>, not \<open>yrel\<close>, and is modelled so.
\<close>

definition PointDoublet_compute_flow ::
    "point \<Rightarrow> real pyval \<Rightarrow> real pyval \<Rightarrow> pyerr + (fl pyval \<times> fl pyval)" where
  "PointDoublet_compute_flow self x y =
     (let xrel = map_pyval (\<lambda>a. a - pt_x self) x;
          yrel = map_pyval (\<lambda>a. a - pt_y self) y
      in
      pybind (py_sub (py_sq xrel) (py_sq y)) (\<lambda>d.
      pybind (py_add (py_sq xrel) (py_sq yrel)) (\<lambda>r2.
      pybind (py_truediv (map_pyval (\<lambda>a. - pt_strength self / 2 / pi * a) d) (py_sq r2)) (\<lambda>u.
      pybind (py_mul (map_pyval (\<lambda>a. - pt_strength self / 2 / pi * 2 * a) xrel) yrel) (\<lambda>n.
      pybind (py_add (py_sq xrel) (py_sq yrel)) (\<lambda>r2'.
      pybind (py_truediv n (py_sq r2')) (\<lambda>v.
      Inr (u, v))))))))"

text \<open>
  \<^verbatim>\<open>xrel = x - self.x
yrel = y - self.y
return -self.strength / 2. / pi * yrel / (xrel**2. + yrel**2.)\<close>
\<close>

definition PointDoublet_compute_psi :: "point \<Rightarrow> real pyval \<Rightarrow> real pyval \<Rightarrow> pyerr + fl pyval" where
  "PointDoublet_compute_psi self x y =
     (let xrel = map_pyval (\<lambda>a. a - pt_x self) x;
          yrel = map_pyval (\<lambda>a. a - pt_y self) y
      in
      pybind (py_add (py_sq xrel) (py_sq yrel)) (\<lambda>r2.
      py_truediv (map_pyval (\<lambda>a. - pt_strength self / 2 / pi * a) yrel) r2))"

subsection \<open>PointSource\<close>

text \<open>
  \<^verbatim>\<open>u = self.strength / 2. / pi * xrel / (xrel**2. + yrel**2.)
v = self.strength / 2. / pi * yrel / (xrel**2. + yrel**2.)\<close>
\<close>

definition PointSource_compute_flow ::
    "point \<Rightarrow> real pyval \<Rightarrow> real pyval \<Rightarrow> pyerr + (fl pyval \<times> fl pyval)" where
  "PointSource_compute_flow self x y =
     (let xrel = map_pyval (\<lambda>a. a - pt_x self) x;
          yrel = map_pyval (\<lambda>a. a - pt_y self) y
      in
      pybind (py_add (py_sq xrel) (py_sq yrel)) (\<lambda>r2.
      pybind (py_truediv (map_pyval (\<lambda>a. pt_strength self / 2 / pi * a) xrel) r2) (\<lambda>u.
      pybind (py_add (py_sq xrel) (py_sq yrel)) (\<lambda>r2'.
      pybind (py_truediv (map_pyval (\<lambda>a. pt_strength self / 2 / pi * a) yrel) r2') (\<lambda>v.
      Inr (u, v))))))"

text \<open>
  \<^verbatim>\<open>xrel = x - self.x
yrel = y - self.y
return self.strength / 2. / pi * arctan2(yrel - self.yrel, xrel - self.xrel)\<close>
  The arguments of the call are evaluated left to right, so \<open>self.yrel\<close> is the first
  of the two unassigned attributes to be read.
\<close>

definition PointSource_compute_psi :: "point \<Rightarrow> real pyval \<Rightarrow> real pyval \<Rightarrow> pyerr + fl pyval" where
  "PointSource_compute_psi self x y =
     (let xrel = map_pyval (\<lambda>a. a - pt_x self) x;
          yrel = map_pyval (\<lambda>a. a - pt_y self) y
      in
      pybind (getattr self ''yrel'') (\<lambda>ay.
      pybind (float_operand ay) (\<lambda>self_yrel.
      pybind (getattr self ''xrel'') (\<lambda>ax.
      pybind (float_operand ax) (\<lambda>self_xrel.
      pybind (np_arctan2 (map_pyval (\<lambda>a. a - self_yrel) yrel)
                         (map_pyval (\<lambda>a. a - self_xrel) xrel)) (\<lambda>t.
      Inr (map_pyval (\<lambda>a. Finite (pt_strength self / 2 / pi * a)) t)))))))"

subsection \<open>PointVortex\<close>

text \<open>
  \<^verbatim>\<open>u =  self.strength / 2. / pi * yrel / (xrel**2. + yrel**2.)
v = -self.strength / 2. / pi * xrel / (xrel**2. + yrel**2.)\<close>
\<close>

definition PointVortex_compute_flow ::
    "point \<Rightarrow> real pyval \<Rightarrow> real pyval \<Rightarrow> pyerr + (fl pyval \<times> fl pyval)" where
  "PointVortex_compute_flow self x y =
     (let xrel = map_pyval (\<lambda>a. a - pt_x self) x;
          yrel = map_pyval (\<lambda>a. a - pt_y self) y
      in
      pybind (py_add (py_sq xrel) (py_sq yrel)) (\<lambda>r2.
      pybind (py_truediv (map_pyval (\<lambda>a. pt_strength self / 2 / pi * a) yrel) r2) (\<lambda>u.
      pybind (py_add (py_sq xrel) (py_sq yrel)) (\<lambda>r2'.
      pybind (py_truediv (map_pyval (\<lambda>a. - pt_strength self / 2 / pi * a) xrel) r2') (\<lambda>v.
      Inr (u, v))))))"

text \<open>
  \<^verbatim>\<open>return self.strength / 4. / pi * log(xrel**2. + yrel**2.)\<close>
  with \<open>log\<close> imported from \<open>math\<close>: the result is a Python float.
\<close>

definition PointVortex_compute_psi ::
    "scalar_conversion \<Rightarrow> point \<Rightarrow> real pyval \<Rightarrow> real pyval \<Rightarrow> pyerr + fl pyval" where
  "PointVortex_compute_psi cv self x y =
     (let xrel = map_pyval (\<lambda>a. a - pt_x self) x;
          yrel = map_pyval (\<lambda>a. a - pt_y self) y
      in
      pybind (py_add (py_sq xrel) (py_sq yrel)) (\<lambda>r2.
      pybind (math_log cv r2) (\<lambda>l.
      Inr (PyFloat (Finite (pt_strength self / 4 / pi * l))))))"

subsection \<open>Method dispatch on the class of the instance\<close>

definition compute_flow ::
    "point \<Rightarrow> real pyval \<Rightarrow> real pyval \<Rightarrow> pyerr + (fl pyval \<times> fl pyval)" where
  "compute_flow self x y =
     (case pt_cls self of
        PointDoublet \<Rightarrow> PointDoublet_compute_flow self x y
      | PointSource \<Rightarrow> PointSource_compute_flow self x y
      | PointVortex \<Rightarrow> PointVortex_compute_flow self x y)"

definition compute_psi ::
    "scalar_conversion \<Rightarrow> point \<Rightarrow> real pyval \<Rightarrow> real pyval \<Rightarrow> pyerr + fl pyval" where
  "compute_psi cv self x y =
     (case pt_cls self of
        PointDoublet \<Rightarrow> PointDoublet_compute_psi self x y
      | PointSource \<Rightarrow> PointSource_compute_psi self x y
      | PointVortex \<Rightarrow> PointVortex_compute_psi cv self x y)"

text \<open>
  The velocity component the specification gives for a doublet of strength \<open>mu\<close> at
  \<open>(x0, y0)\<close>: \<open>u = -mu/(2 pi) (dx\<^sup>2 - dy\<^sup>2)/r\<^sup>4\<close>, in the relative offsets only.
\<close>

definition doublet_u_spec :: "real \<Rightarrow> real \<Rightarrow> real \<Rightarrow> real \<Rightarrow> real \<Rightarrow> real" where
  "doublet_u_spec mu x0 y0 x y =
     - mu / (2 * pi) * ((x - x0) ^ 2 - (y - y0) ^ 2) / ((x - x0) ^ 2 + (y - y0) ^ 2) ^ 2"

section \<open>The flow field (\<open>potential/d2/_flow_field.py\<close>)\<close>

subsection \<open>numpy: linspace, meshgrid, ones, in-place addition\<close>

text \<open>
  \<open>numpy.linspace(start, stop, num)\<close> with the default \<open>endpoint=True\<close>: a negative
  \<open>num\<close> raises ValueError; otherwise the samples are \<open>arange(num) * step + start\<close> with
  \<open>step = (stop - start) / (num - 1)\<close> when \<open>num - 1 > 0\<close> and
  \<open>arange(num) * (stop - start) + start\<close> when it is not, and for \<open>num > 1\<close> the last
  sample is overwritten with \<open>stop\<close>.
\<close>

definition np_linspace :: "real \<Rightarrow> real \<Rightarrow> int \<Rightarrow> pyerr + real list" where
  "np_linspace start stop num =
     (if num < 0 then Inl ValueError
      else
        let dv = num - 1;
            delta = stop - start;
            y = map real [0..<nat num];
            y1 = (if 0 < dv
                  then (let step = delta / real_of_int dv
                        in if step = 0 then map (\<lambda>a. a / real_of_int dv * delta) y
                           else map (\<lambda>a. a * step) y)
                  else map (\<lambda>a. a * delta) y);
            y2 = map (\<lambda>a. a + start) y1
        in Inr (if 1 < num then y2[nat num - 1 := stop] else y2))"

text \<open>
  \<open>numpy.meshgrid(xv, yv)\<close> with the default indexing: two arrays of shape
  \<open>(len(yv), len(xv))\<close>; row \<open>i\<close> of the first is \<open>xv\<close>, row \<open>i\<close> of the second is
  \<open>yv[i]\<close> repeated.
\<close>

definition np_meshgrid :: "'a list \<Rightarrow> 'a list \<Rightarrow> 'a pyval \<times> 'a pyval" where
  "np_meshgrid xv yv =
     (NdArray [length yv, length xv] (concat (replicate (length yv) xv)),
      NdArray [length yv, length xv] (concat (map (replicate (length xv)) yv)))"

definition np_ones :: "nat list \<Rightarrow> real pyval" where
  "np_ones s = NdArray s (replicate (prod_list s) 1)"

definition fl_add :: "fl \<Rightarrow> fl \<Rightarrow> fl" where
  "fl_add a b = (case (a, b) of (Finite p, Finite q) \<Rightarrow> Finite (p + q) | _ \<Rightarrow> NonFinite)"

text \<open>
  \<open>a += b\<close>. On an array it adds in place: \<open>b\<close> is broadcast to the shape of \<open>a\<close>, and
  numpy raises ValueError when that is not possible. On a Python float it is \<open>a = a + b\<close>.
\<close>

fun np_iadd :: "fl pyval \<Rightarrow> fl pyval \<Rightarrow> pyerr + fl pyval" where
  "np_iadd (NdArray s xs) (PyFloat b) = Inr (NdArray s (map (\<lambda>a. fl_add a b) xs))"
| "np_iadd (NdArray s xs) (NdArray t ys) =
     (if t = s then Inr (NdArray s (map2 fl_add xs ys))
      else if broadcast_shapes s t = Some s
      then Inr (NdArray s (map2 fl_add xs (broadcast_to t s ys)))
      else Inl ValueError)"
| "np_iadd (PyFloat a) b = elementwise fl_add (PyFloat a) b"

subsection \<open>FlowField2D\<close>

text \<open>
  \<^verbatim>\<open>def __init__(self, points=[], uinf=0., alpha=0., xlim=(-1., 1.), ylim=(-1., 1.), nx=100, ny=100):
    self.points = points\<close>
  A Python list is an object on the heap and \<open>self.points\<close> is a reference to it. The
  default value \<open>[]\<close> is one list object, created once when the \<open>def\<close> statement runs;
  it lives at the address \<open>default_points\<close>. The heap maps the address of a list to its
  current content.
\<close>

type_synonym addr = nat

type_synonym heap = "addr \<Rightarrow> point list"

record FlowField2D =
  ff_points :: addr
  ff_uinf :: real
  ff_alpha :: real
  ff_xlim :: "real \<times> real"
  ff_ylim :: "real \<times> real"
  ff_nx :: int
  ff_ny :: int

definition default_points :: addr where
  "default_points = 0"

definition FlowField2D_init ::
    "addr option \<Rightarrow> real \<Rightarrow> real \<Rightarrow> real \<times> real \<Rightarrow> real \<times> real \<Rightarrow> int \<Rightarrow> int \<Rightarrow> FlowField2D" where
  "FlowField2D_init points uinf alpha xlim ylim nx ny =
     \<lparr>ff_points = (case points of None \<Rightarrow> default_points | Some a \<Rightarrow> a),
      ff_uinf = uinf, ff_alpha = alpha, ff_xlim = xlim, ff_ylim = ylim,
      ff_nx = nx, ff_ny = ny\<rparr>"

text \<open>\<open>lst.append(p)\<close> on the list at address \<open>a\<close>.\<close>

definition list_append :: "heap \<Rightarrow> addr \<Rightarrow> point \<Rightarrow> heap" where
  "list_append h a p = h(a := h a @ [p])"

definition FlowField2D_freestream :: "FlowField2D \<Rightarrow> real \<times> real" where
  "FlowField2D_freestream self =
     (ff_uinf self * cos (ff_alpha self), ff_uinf self * sin (ff_alpha self))"

definition FlowField2D_x_values :: "FlowField2D \<Rightarrow> pyerr + real list" where
  "FlowField2D_x_values self = np_linspace (fst (ff_xlim self)) (snd (ff_xlim self)) (ff_nx self)"

definition FlowField2D_y_values :: "FlowField2D \<Rightarrow> pyerr + real list" where
  "FlowField2D_y_values self = np_linspace (fst (ff_ylim self)) (snd (ff_ylim self)) (ff_ny self)"

definition FlowField2D_grid :: "FlowField2D \<Rightarrow> pyerr + (real pyval \<times> real pyval)" where
  "FlowField2D_grid self =
     pybind (FlowField2D_x_values self) (\<lambda>xv.
     pybind (FlowField2D_y_values self) (\<lambda>yv.
     Inr (np_meshgrid xv yv)))"

definition FlowField2D_x :: "FlowField2D \<Rightarrow> pyerr + real pyval" where
  "FlowField2D_x self = pybind (FlowField2D_grid self) (\<lambda>g. Inr (fst g))"

definition FlowField2D_y :: "FlowField2D \<Rightarrow> pyerr + real pyval" where
  "FlowField2D_y self = pybind (FlowField2D_grid self) (\<lambda>g. Inr (snd g))"

text \<open>
  \<^verbatim>\<open>for point in self.points:
    point_flow = point.compute_flow(self.x, self.y)
    u += point_flow[0]
    v += point_flow[1]
return u, v\<close>
\<close>

fun flow_loop ::
    "FlowField2D \<Rightarrow> point list \<Rightarrow> fl pyval \<Rightarrow> fl pyval \<Rightarrow> pyerr + (fl pyval \<times> fl pyval)" where
  "flow_loop self [] u v = Inr (u, v)"
| "flow_loop self (point # rest) u v =
     pybind (FlowField2D_x self) (\<lambda>X.
     pybind (FlowField2D_y self) (\<lambda>Y.
     pybind (compute_flow point X Y) (\<lambda>point_flow.
     pybind (np_iadd u (fst point_flow)) (\<lambda>u'.
     pybind (np_iadd v (snd point_flow)) (\<lambda>v'.
     flow_loop self rest u' v')))))"

text \<open>
  \<^verbatim>\<open>u = np.ones(self.x.shape) * self.freestream[0]
v = np.ones(self.x.shape) * self.freestream[1]\<close>
  followed by the loop over the list \<open>self.points\<close> refers to.
\<close>

definition FlowField2D_flow :: "heap \<Rightarrow> FlowField2D \<Rightarrow> pyerr + (fl pyval \<times> fl pyval)" where
  "FlowField2D_flow h self =
     pybind (FlowField2D_x self) (\<lambda>X.
     pybind (shape X) (\<lambda>s.
     let u = map_pyval (\<lambda>a. Finite (a * fst (FlowField2D_freestream self))) (np_ones s) in
     pybind (FlowField2D_x self) (\<lambda>X'.
     pybind (shape X') (\<lambda>s'.
     let v = map_pyval (\<lambda>a. Finite (a * snd (FlowField2D_freestream self))) (np_ones s') in
     flow_loop self (h (ff_points self)) u v))))"

definition FlowField2D_u :: "heap \<Rightarrow> FlowField2D \<Rightarrow> pyerr + fl pyval" where
  "FlowField2D_u h self = pybind (FlowField2D_flow h self) (\<lambda>f. Inr (fst f))"

definition FlowField2D_v :: "heap \<Rightarrow> FlowField2D \<Rightarrow> pyerr + fl pyval" where
  "FlowField2D_v h self = pybind (FlowField2D_flow h self) (\<lambda>f. Inr (snd f))"

text \<open>
  \<^verbatim>\<open>psi = self.uinf * (self.y * cos(self.alpha) - self.x * sin(self.alpha))
for point in self.points:
    psi += point.compute_psi(self.x, self.y)
return psi\<close>
\<close>

fun psi_loop ::
    "scalar_conversion \<Rightarrow> FlowField2D \<Rightarrow> point list \<Rightarrow> fl pyval \<Rightarrow> pyerr + fl pyval" where
  "psi_loop cv self [] psi = Inr psi"
| "psi_loop cv self (point # rest) psi =
     pybind (FlowField2D_x self) (\<lambda>X.
     pybind (FlowField2D_y self) (\<lambda>Y.
     pybind (compute_psi cv point X Y) (\<lambda>r.
     pybind (np_iadd psi r) (\<lambda>psi'.
     psi_loop cv self rest psi'))))"

definition FlowField2D_psi ::
    "scalar_conversion \<Rightarrow> heap \<Rightarrow> FlowField2D \<Rightarrow> pyerr + fl pyval" where
  "FlowField2D_psi cv h self =
     pybind (FlowField2D_y self) (\<lambda>Y.
     pybind (FlowField2D_x self) (\<lambda>X.
     pybind (py_sub (map_pyval (\<lambda>a. a * cos (ff_alpha self)) Y)
                    (map_pyval (\<lambda>a. a * sin (ff_alpha self)) X)) (\<lambda>d.
     psi_loop cv self (h (ff_points self)) (map_pyval (\<lambda>a. Finite (ff_uinf self * a)) d))))"

text \<open>The sum of a list of contributions, for stating superposition.\<close>

definition fl_sum :: "fl list \<Rightarrow> fl" where
  "fl_sum xs = foldr fl_add xs (Finite 0)"

section \<open>Properties of the singularities\<close>

lemma pybind_simps [simp]:
  "pybind (Inl e) f = Inl e"
  "pybind (Inr v) f = f v"
  by (simp_all add: pybind_def)

lemma init_fields:
  "ff_points (FlowField2D_init p u a xl yl nx ny) = (case p of None \<Rightarrow> default_points | Some b \<Rightarrow> b)"
  "ff_uinf (FlowField2D_init p u a xl yl nx ny) = u"
  "ff_alpha (FlowField2D_init p u a xl yl nx ny) = a"
  "ff_xlim (FlowField2D_init p u a xl yl nx ny) = xl"
  "ff_ylim (FlowField2D_init p u a xl yl nx ny) = yl"
  "ff_nx (FlowField2D_init p u a xl yl nx ny) = nx"
  "ff_ny (FlowField2D_init p u a xl yl nx ny) = ny"
  by (simp_all add: FlowField2D_init_def)

text \<open>
  C1. The u-component of a doublet is specified as \<open>-mu/(2 pi) (dx\<^sup>2 - dy\<^sup>2)/r\<^sup>4\<close>. The
  code subtracts the square of the absolute \<open>y\<close>: for the unit doublet at \<open>(0, 1)\<close>
  evaluated at \<open>(1, 1)\<close> it returns \<open>u = 0\<close>, where the specified value is \<open>-1/(2 pi)\<close>.
\<close>

theorem doublet_u_absolute_y:
  "map_sum id fst (PointDoublet_compute_flow (PointDoublet_init 0 1 1 ''g'') (PyFloat 1) (PyFloat 1))
     = Inr (PyFloat (Finite 0))
   \<and> doublet_u_spec 1 0 1 1 1 = - 1 / (2 * pi)
   \<and> doublet_u_spec 1 0 1 1 1 \<noteq> 0"
  by (simp add: PointDoublet_compute_flow_def PointDoublet_init_def py_sub_def py_add_def
      py_mul_def py_sq_def doublet_u_spec_def)

text \<open>
  C2. \<open>PointSource.compute_psi\<close> is specified to return \<open>m/(2 pi) atan2(y - y0, x - x0)\<close>.
  On every source the constructor builds and on every input, the code raises
  AttributeError: it reads \<open>self.yrel\<close>, which no constructor assigns.
\<close>

theorem source_psi_attribute_error:
  "PointSource_compute_psi (PointSource_init x0 y0 m c) x y = Inl AttributeError"
  by (simp add: PointSource_compute_psi_def getattr_def)


section \<open>The grid\<close>

lemma np_linspace_neg: "n < 0 \<Longrightarrow> np_linspace a b n = Inl ValueError"
  by (simp add: np_linspace_def)

lemma np_linspace_isl: "np_linspace a b n = Inl e \<longleftrightarrow> n < 0 \<and> e = ValueError"
  by (auto simp add: np_linspace_def Let_def)

lemma np_linspace_length: "np_linspace a b n = Inr ys \<Longrightarrow> length ys = nat n"
  by (auto simp add: np_linspace_def Let_def split: if_splits)

lemma np_linspace_nth:
  assumes "np_linspace a b n = Inr ys" and "j < nat n"
  shows "ys ! j = (if n = 1 then a else a + real j * (b - a) / real_of_int (n - 1))"
proof (cases "1 < n")
  case False
  with assms have "n = 1" by linarith
  with assms show ?thesis by (auto simp add: np_linspace_def Let_def)
next
  case True
  let ?f = "\<lambda>k::nat. a + real k * (b - a) / real_of_int (n - 1)"
  have last: "?f (nat n - 1) = b"
  proof -
    have "real (nat n - 1) = real_of_int (n - 1)" using True by (simp add: of_nat_diff)
    moreover have "real_of_int (n - 1) \<noteq> 0" using True by simp
    ultimately show ?thesis by simp
  qed
  have body: "ys = (map ?f [0..<nat n])[nat n - 1 := b]"
    using assms(1) True by (auto simp add: np_linspace_def Let_def o_def add.commute)
  show ?thesis
  proof (cases "j = nat n - 1")
    case True
    then show ?thesis using body assms(2) last \<open>1 < n\<close> by simp
  next
    case False
    then show ?thesis using body assms(2) \<open>1 < n\<close> by simp
  qed
qed

lemma nth_concat_replicate:
  "i < n \<Longrightarrow> j < length xs \<Longrightarrow> concat (replicate n xs) ! (i * length xs + j) = xs ! j"
proof (induction n arbitrary: i)
  case 0
  then show ?case by simp
next
  case (Suc n)
  show ?case
  proof (cases i)
    case 0
    then show ?thesis using Suc.prems by (simp add: nth_append)
  next
    case (Suc i')
    then show ?thesis using Suc.prems Suc.IH [of i'] by (simp add: nth_append)
  qed
qed

lemma nth_concat_map_replicate:
  "i < length ys \<Longrightarrow> j < m \<Longrightarrow> concat (map (replicate m) ys) ! (i * m + j) = ys ! i"
proof (induction ys arbitrary: i)
  case Nil
  then show ?case by simp
next
  case (Cons y ys)
  show ?case
  proof (cases i)
    case 0
    then show ?thesis using Cons.prems by (simp add: nth_append)
  next
    case (Suc i')
    then show ?thesis using Cons.prems Cons.IH [of i'] by (simp add: nth_append)
  qed
qed

lemma length_concat_replicate: "length (concat (replicate n xs)) = n * length xs"
  by (induction n) simp_all

lemma length_concat_map_replicate: "length (concat (map (replicate m) ys)) = length ys * m"
  by (induction ys) simp_all

lemma grid_isl:
  "FlowField2D_grid self = Inl e \<longleftrightarrow> (ff_nx self < 0 \<or> ff_ny self < 0) \<and> e = ValueError"
  by (auto simp add: FlowField2D_grid_def FlowField2D_x_values_def FlowField2D_y_values_def
      np_linspace_def Let_def)

lemma grid_Inr:
  assumes "FlowField2D_grid self = Inr (X, Y)"
  shows "\<exists>xv yv. FlowField2D_x_values self = Inr xv \<and> FlowField2D_y_values self = Inr yv
           \<and> length xv = nat (ff_nx self) \<and> length yv = nat (ff_ny self)
           \<and> X = NdArray [nat (ff_ny self), nat (ff_nx self)] (concat (replicate (length yv) xv))
           \<and> Y = NdArray [nat (ff_ny self), nat (ff_nx self)] (concat (map (replicate (length xv)) yv))"
proof -
  from assms obtain xv yv where xv: "FlowField2D_x_values self = Inr xv"
    and yv: "FlowField2D_y_values self = Inr yv" and g: "np_meshgrid xv yv = (X, Y)"
    by (auto simp add: FlowField2D_grid_def pybind_def split: sum.splits)
  have "length xv = nat (ff_nx self)" "length yv = nat (ff_ny self)"
    using xv yv by (simp_all add: FlowField2D_x_values_def FlowField2D_y_values_def np_linspace_length)
  with xv yv g show ?thesis by (auto simp add: np_meshgrid_def)
qed

lemma grid_arrays:
  assumes "FlowField2D_grid self = Inr (X, Y)"
  shows "\<exists>xs ys. X = NdArray [nat (ff_ny self), nat (ff_nx self)] xs
           \<and> Y = NdArray [nat (ff_ny self), nat (ff_nx self)] ys
           \<and> length xs = nat (ff_ny self) * nat (ff_nx self)
           \<and> length ys = nat (ff_ny self) * nat (ff_nx self)"
proof -
  from grid_Inr [OF assms] obtain xv yv where
    "length xv = nat (ff_nx self)" "length yv = nat (ff_ny self)"
    "X = NdArray [nat (ff_ny self), nat (ff_nx self)] (concat (replicate (length yv) xv))"
    "Y = NdArray [nat (ff_ny self), nat (ff_nx self)] (concat (map (replicate (length xv)) yv))"
    by blast
  then show ?thesis
    by (simp add: length_concat_replicate length_concat_map_replicate)
qed

lemma elementwise_same [simp]:
  "elementwise f (NdArray s xs) (NdArray s ys) = Inr (NdArray s (map2 f xs ys))"
  by simp

lemma py_truediv_arrays [simp]:
  "py_truediv (NdArray s xs) (NdArray s ys) = Inr (NdArray s (map2 np_divide xs ys))"
  by simp

lemma compute_flow_arrays:
  assumes "length xs = length ys"
  shows "\<exists>us vs. compute_flow p (NdArray s xs) (NdArray s ys) = Inr (NdArray s us, NdArray s vs)
           \<and> length us = length xs \<and> length vs = length xs"
  using assms
  by (cases "pt_cls p")
     (simp_all add: compute_flow_def PointDoublet_compute_flow_def PointSource_compute_flow_def
        PointVortex_compute_flow_def py_add_def py_sub_def py_mul_def py_sq_def)

lemma compute_psi_arrays:
  assumes "compute_psi cv p (NdArray s xs) (NdArray s ys) = Inr r" and "length xs = length ys"
  shows "(\<exists>ps. r = NdArray s ps \<and> length ps = length xs) \<or> (\<exists>a. r = PyFloat a)"
proof (cases "pt_cls p")
  case PointDoublet
  with assms show ?thesis
    by (auto simp add: compute_psi_def PointDoublet_compute_psi_def py_add_def py_sq_def)
next
  case PointSource
  with assms show ?thesis
    by (simp add: compute_psi_def PointSource_compute_psi_def getattr_def)
next
  case PointVortex
  with assms show ?thesis
    by (auto simp add: compute_psi_def PointVortex_compute_psi_def py_add_def py_sq_def pybind_def
        split: sum.splits)
qed

section \<open>Superposition\<close>

lemma fl_add_simps [simp]:
  "fl_add (Finite p) (Finite q) = Finite (p + q)"
  "fl_add NonFinite b = NonFinite"
  "fl_add a NonFinite = NonFinite"
  by (simp_all add: fl_add_def split: fl.splits)

lemma fl_add_commute: "fl_add a b = fl_add b a"
  by (cases a; cases b) simp_all

lemma fl_add_assoc: "fl_add (fl_add a b) c = fl_add a (fl_add b c)"
  by (cases a; cases b; cases c) simp_all

lemma fl_add_zero [simp]: "fl_add a (Finite 0) = a"
  by (cases a) simp_all

lemma fl_sum_simps [simp]:
  "fl_sum [] = Finite 0"
  "fl_sum (a # as) = fl_add a (fl_sum as)"
  by (simp_all add: fl_sum_def)

lemma grid_x [simp]: "FlowField2D_grid self = Inr (X, Y) \<Longrightarrow> FlowField2D_x self = Inr X"
  by (simp add: FlowField2D_x_def)

lemma grid_y [simp]: "FlowField2D_grid self = Inr (X, Y) \<Longrightarrow> FlowField2D_y self = Inr Y"
  by (simp add: FlowField2D_y_def)

lemma flow_loop_sum:
  assumes g: "FlowField2D_grid self = Inr (NdArray s xs, NdArray s ys)"
    and len: "length xs = length ys" "length us = length xs" "length vs = length xs"
  shows "\<exists>us' vs'. flow_loop self pts (NdArray s us) (NdArray s vs) = Inr (NdArray s us', NdArray s vs')
           \<and> length us' = length xs \<and> length vs' = length xs
           \<and> (\<forall>k<length xs.
                  us' ! k = fl_add (us ! k)
                    (fl_sum (map (\<lambda>p. cell (fst (projr (compute_flow p (NdArray s xs) (NdArray s ys)))) k) pts))
                \<and> vs' ! k = fl_add (vs ! k)
                    (fl_sum (map (\<lambda>p. cell (snd (projr (compute_flow p (NdArray s xs) (NdArray s ys)))) k) pts)))"
  using len(2,3)
proof (induction pts arbitrary: us vs)
  case Nil
  then show ?case by simp
next
  case (Cons p pts)
  from compute_flow_arrays [OF len(1), of p s] obtain pu pv where
    cf: "compute_flow p (NdArray s xs) (NdArray s ys) = Inr (NdArray s pu, NdArray s pv)"
    and lpu: "length pu = length xs" and lpv: "length pv = length xs"
    by blast
  let ?us1 = "map2 fl_add us pu" and ?vs1 = "map2 fl_add vs pv"
  have l1: "length ?us1 = length xs" "length ?vs1 = length xs"
    using Cons.prems lpu lpv by simp_all
  from Cons.IH [OF l1] obtain us' vs' where
    loop: "flow_loop self pts (NdArray s ?us1) (NdArray s ?vs1) = Inr (NdArray s us', NdArray s vs')"
    and l': "length us' = length xs" "length vs' = length xs"
    and val: "\<forall>k<length xs.
                us' ! k = fl_add (?us1 ! k)
                  (fl_sum (map (\<lambda>p. cell (fst (projr (compute_flow p (NdArray s xs) (NdArray s ys)))) k) pts))
              \<and> vs' ! k = fl_add (?vs1 ! k)
                  (fl_sum (map (\<lambda>p. cell (snd (projr (compute_flow p (NdArray s xs) (NdArray s ys)))) k) pts))"
    by blast
  have step: "flow_loop self (p # pts) (NdArray s us) (NdArray s vs)
                = flow_loop self pts (NdArray s ?us1) (NdArray s ?vs1)"
    using g cf by simp
  have "\<forall>k<length xs.
          us' ! k = fl_add (us ! k)
            (fl_sum (map (\<lambda>p. cell (fst (projr (compute_flow p (NdArray s xs) (NdArray s ys)))) k) (p # pts)))
        \<and> vs' ! k = fl_add (vs ! k)
            (fl_sum (map (\<lambda>p. cell (snd (projr (compute_flow p (NdArray s xs) (NdArray s ys)))) k) (p # pts)))"
    using val cf Cons.prems lpu lpv by (simp add: fl_add_assoc)
  with step loop l' show ?case by simp
qed

lemma psi_loop_sum:
  assumes g: "FlowField2D_grid self = Inr (NdArray s xs, NdArray s ys)"
    and len: "length xs = length ys" "length ps = length xs"
    and ok: "\<forall>p\<in>set pts. \<exists>r. compute_psi cv p (NdArray s xs) (NdArray s ys) = Inr r"
  shows "\<exists>ps'. psi_loop cv self pts (NdArray s ps) = Inr (NdArray s ps')
           \<and> length ps' = length xs
           \<and> (\<forall>k<length xs.
                  ps' ! k = fl_add (ps ! k)
                    (fl_sum (map (\<lambda>p. cell (projr (compute_psi cv p (NdArray s xs) (NdArray s ys))) k) pts)))"
  using len(2) ok
proof (induction pts arbitrary: ps)
  case Nil
  then show ?case by simp
next
  case (Cons p pts)
  from Cons.prems obtain r where r: "compute_psi cv p (NdArray s xs) (NdArray s ys) = Inr r"
    by auto
  from compute_psi_arrays [OF r len(1)] obtain ps1 where
    add: "np_iadd (NdArray s ps) r = Inr (NdArray s ps1)" and l1: "length ps1 = length xs"
    and v1: "\<forall>k<length xs. ps1 ! k = fl_add (ps ! k) (cell r k)"
    using Cons.prems(1) by auto
  from Cons.IH [OF l1] Cons.prems(2) obtain ps' where
    loop: "psi_loop cv self pts (NdArray s ps1) = Inr (NdArray s ps')"
    and l': "length ps' = length xs"
    and val: "\<forall>k<length xs.
                ps' ! k = fl_add (ps1 ! k)
                  (fl_sum (map (\<lambda>p. cell (projr (compute_psi cv p (NdArray s xs) (NdArray s ys))) k) pts))"
    by auto
  have step: "psi_loop cv self (p # pts) (NdArray s ps) = psi_loop cv self pts (NdArray s ps1)"
    using g r add by simp
  have "\<forall>k<length xs.
          ps' ! k = fl_add (ps ! k)
            (fl_sum (map (\<lambda>p. cell (projr (compute_psi cv p (NdArray s xs) (NdArray s ys))) k) (p # pts)))"
    using val v1 r by (simp add: fl_add_assoc)
  with step loop l' show ?case by simp
qed

lemma psi_loop_Inr:
  assumes g: "FlowField2D_grid self = Inr (X, Y)"
    and "psi_loop cv self pts acc = Inr P"
  shows "\<forall>p\<in>set pts. \<exists>r. compute_psi cv p X Y = Inr r"
  using assms(2)
proof (induction pts arbitrary: acc)
  case Nil
  then show ?case by simp
next
  case (Cons p pts)
  from Cons.prems g obtain r acc' where "compute_psi cv p X Y = Inr r"
    and "psi_loop cv self pts acc' = Inr P"
    by (auto simp add: pybind_def split: sum.splits)
  with Cons.IH show ?case by auto
qed

text \<open>
  What the aggregation does with the results of \<open>compute_psi\<close>: whenever the grid
  exists, the composite stream function is produced exactly when every singularity's
  \<open>compute_psi\<close> returns on the grid, and then it has the shape of the grid and its value
  in each cell is \<open>uinf (y cos alpha - x sin alpha)\<close> plus the sum of the singularities'
  \<open>compute_psi\<close> values in that cell.
\<close>

lemma psi_superposition:
  assumes g: "FlowField2D_grid self = Inr (X, Y)"
  shows "((\<exists>P. FlowField2D_psi cv h self = Inr P)
            \<longleftrightarrow> (\<forall>p\<in>set (h (ff_points self)). \<exists>r. compute_psi cv p X Y = Inr r))
       \<and> (\<forall>P. FlowField2D_psi cv h self = Inr P \<longrightarrow>
            shape P = Inr [nat (ff_ny self), nat (ff_nx self)]
          \<and> (\<forall>k < nat (ff_ny self) * nat (ff_nx self).
                cell P k =
                  fl_add (Finite (ff_uinf self * (cell Y k * cos (ff_alpha self) - cell X k * sin (ff_alpha self))))
                         (fl_sum (map (\<lambda>p. cell (projr (compute_psi cv p X Y)) k) (h (ff_points self))))))"
proof -
  let ?s = "[nat (ff_ny self), nat (ff_nx self)]"
  let ?n = "nat (ff_ny self) * nat (ff_nx self)"
  let ?pts = "h (ff_points self)"
  from grid_arrays [OF g] obtain xs ys where X: "X = NdArray ?s xs" and Y: "Y = NdArray ?s ys"
    and lx: "length xs = ?n" and ly: "length ys = ?n"
    by blast
  let ?ps0 = "map (\<lambda>a. Finite (ff_uinf self * a))
                (map2 (-) (map (\<lambda>a. a * cos (ff_alpha self)) ys) (map (\<lambda>a. a * sin (ff_alpha self)) xs))"
  have g': "FlowField2D_grid self = Inr (NdArray ?s xs, NdArray ?s ys)"
    using g X Y by simp
  have unfold: "FlowField2D_psi cv h self = psi_loop cv self ?pts (NdArray ?s ?ps0)"
    using g' by (simp add: FlowField2D_psi_def py_sub_def)
  have l0: "length ?ps0 = length xs" using lx ly by simp
  have lxy: "length xs = length ys" using lx ly by simp
  have p0: "\<forall>k<?n. ?ps0 ! k = Finite (ff_uinf self * (ys ! k * cos (ff_alpha self) - xs ! k * sin (ff_alpha self)))"
    using lx ly by simp
  have fwd: "\<forall>p\<in>set ?pts. \<exists>r. compute_psi cv p X Y = Inr r" if "FlowField2D_psi cv h self = Inr P" for P
    using psi_loop_Inr [OF g] that unfold by metis
  have bwd: "\<exists>ps'. FlowField2D_psi cv h self = Inr (NdArray ?s ps') \<and> length ps' = ?n
               \<and> (\<forall>k<?n. ps' ! k = fl_add (?ps0 ! k)
                     (fl_sum (map (\<lambda>p. cell (projr (compute_psi cv p X Y)) k) ?pts)))"
    if ok: "\<forall>p\<in>set ?pts. \<exists>r. compute_psi cv p X Y = Inr r"
  proof -
    from ok have ok': "\<forall>p\<in>set ?pts. \<exists>r. compute_psi cv p (NdArray ?s xs) (NdArray ?s ys) = Inr r"
      using X Y by simp
    from psi_loop_sum [OF g' lxy l0 ok'] show ?thesis
      unfolding unfold X Y lx by blast
  qed
  have vals: "shape P = Inr ?s \<and> (\<forall>k < ?n. cell P k =
                  fl_add (Finite (ff_uinf self * (cell Y k * cos (ff_alpha self) - cell X k * sin (ff_alpha self))))
                         (fl_sum (map (\<lambda>p. cell (projr (compute_psi cv p X Y)) k) ?pts)))"
    if P: "FlowField2D_psi cv h self = Inr P" for P
  proof -
    from bwd [OF fwd [OF P]] P obtain ps' where "P = NdArray ?s ps'"
      and "\<forall>k<?n. ps' ! k = fl_add (?ps0 ! k)
                     (fl_sum (map (\<lambda>p. cell (projr (compute_psi cv p X Y)) k) ?pts))"
      by auto
    then show ?thesis using p0 X Y by simp
  qed
  show ?thesis using fwd bwd vals by blast
qed

text \<open>
  C6. Whenever the grid exists, the composite velocity field is produced, both components
  have the shape of the grid, and in each cell \<open>u\<close> is \<open>uinf cos alpha\<close> plus the sum of
  the first components of the singularities' \<open>compute_flow\<close> results and \<open>v\<close> is
  \<open>uinf sin alpha\<close> plus the sum of the second components. With \<open>uinf = 1\<close>,
  \<open>alpha = 0\<close> and no singularity, \<open>u = 1\<close> and \<open>v = 0\<close> in every cell.
\<close>

theorem flow_superposition:
  assumes g: "FlowField2D_grid self = Inr (X, Y)"
  shows "\<exists>U V. FlowField2D_flow h self = Inr (U, V)
           \<and> shape U = Inr [nat (ff_ny self), nat (ff_nx self)]
           \<and> shape V = Inr [nat (ff_ny self), nat (ff_nx self)]
           \<and> (\<forall>p\<in>set (h (ff_points self)). \<exists>r. compute_flow p X Y = Inr r)
           \<and> (\<forall>k < nat (ff_ny self) * nat (ff_nx self).
                  cell U k = fl_add (Finite (ff_uinf self * cos (ff_alpha self)))
                    (fl_sum (map (\<lambda>p. cell (fst (projr (compute_flow p X Y))) k) (h (ff_points self))))
                \<and> cell V k = fl_add (Finite (ff_uinf self * sin (ff_alpha self)))
                    (fl_sum (map (\<lambda>p. cell (snd (projr (compute_flow p X Y))) k) (h (ff_points self)))))
           \<and> (ff_uinf self = 1 \<and> ff_alpha self = 0 \<and> h (ff_points self) = [] \<longrightarrow>
                (\<forall>k < nat (ff_ny self) * nat (ff_nx self). cell U k = Finite 1 \<and> cell V k = Finite 0))"
proof -
  let ?s = "[nat (ff_ny self), nat (ff_nx self)]"
  let ?n = "nat (ff_ny self) * nat (ff_nx self)"
  let ?pts = "h (ff_points self)"
  from grid_arrays [OF g] obtain xs ys where X: "X = NdArray ?s xs" and Y: "Y = NdArray ?s ys"
    and lx: "length xs = ?n" and ly: "length ys = ?n"
    by blast
  let ?us = "map (\<lambda>a. Finite (a * (ff_uinf self * cos (ff_alpha self)))) (replicate ?n (1::real))"
  let ?vs = "map (\<lambda>a. Finite (a * (ff_uinf self * sin (ff_alpha self)))) (replicate ?n (1::real))"
  have g': "FlowField2D_grid self = Inr (NdArray ?s xs, NdArray ?s ys)"
    using g X Y by simp
  have unfold: "FlowField2D_flow h self = flow_loop self ?pts (NdArray ?s ?us) (NdArray ?s ?vs)"
    using g' by (simp add: FlowField2D_flow_def FlowField2D_freestream_def np_ones_def)
  have lxy: "length xs = length ys" using lx ly by simp
  have lu: "length ?us = length xs" and lv: "length ?vs = length xs" using lx by simp_all
  from flow_loop_sum [OF g' lxy lu lv, of ?pts] obtain us' vs' where
    res: "FlowField2D_flow h self = Inr (NdArray ?s us', NdArray ?s vs')"
    and val: "\<forall>k<?n.
                us' ! k = fl_add (?us ! k) (fl_sum (map (\<lambda>p. cell (fst (projr (compute_flow p X Y))) k) ?pts))
              \<and> vs' ! k = fl_add (?vs ! k) (fl_sum (map (\<lambda>p. cell (snd (projr (compute_flow p X Y))) k) ?pts))"
    unfolding unfold X Y lx by blast
  have ok: "\<forall>p\<in>set ?pts. \<exists>r. compute_flow p X Y = Inr r"
    using compute_flow_arrays [OF lxy] unfolding X Y by blast
  have val': "\<forall>k<?n.
                us' ! k = fl_add (Finite (ff_uinf self * cos (ff_alpha self)))
                            (fl_sum (map (\<lambda>p. cell (fst (projr (compute_flow p X Y))) k) ?pts))
              \<and> vs' ! k = fl_add (Finite (ff_uinf self * sin (ff_alpha self)))
                            (fl_sum (map (\<lambda>p. cell (snd (projr (compute_flow p X Y))) k) ?pts))"
    using val by simp
  have free: "ff_uinf self = 1 \<and> ff_alpha self = 0 \<and> ?pts = [] \<longrightarrow>
                (\<forall>k<?n. us' ! k = Finite 1 \<and> vs' ! k = Finite 0)"
    using val' by simp
  show ?thesis using res ok val' free by simp
qed

lemma np_linspace_2: "np_linspace a b 2 = Inr [a, b]"
  by (simp add: np_linspace_def Let_def upt_rec)

lemma grid_2x2:
  "FlowField2D_grid (FlowField2D_init pa uinf alpha (x0, x1) (y0, y1) 2 2)
     = Inr (NdArray [2, 2] [x0, x1, x0, x1], NdArray [2, 2] [y0, y0, y1, y1])"
  by (simp add: FlowField2D_grid_def FlowField2D_x_values_def FlowField2D_y_values_def
      FlowField2D_init_def np_linspace_2 np_meshgrid_def eval_nat_numeral)

lemma doublet_psi_2x2:
  "compute_psi cv (PointDoublet_init 0 0 1 ''g'') (NdArray [2, 2] [-1, 1, -1, 1]) (NdArray [2, 2] [-1, -1, 1, 1])
     = Inr (NdArray [2, 2] [Finite (1 / (4 * pi)), Finite (1 / (4 * pi)),
                            Finite (- 1 / (4 * pi)), Finite (- 1 / (4 * pi))])"
  by (simp add: compute_psi_def PointDoublet_init_def PointDoublet_compute_psi_def py_add_def
      py_sq_def np_divide_def)

lemma doublet_flow_2x2:
  "compute_flow (PointDoublet_init 0 0 1 ''g'') (NdArray [2, 2] [-1, 1, -1, 1]) (NdArray [2, 2] [-1, -1, 1, 1])
     = Inr (NdArray [2, 2] [Finite 0, Finite 0, Finite 0, Finite 0],
            NdArray [2, 2] [Finite (- 1 / (4 * pi)), Finite (1 / (4 * pi)),
                            Finite (1 / (4 * pi)), Finite (- 1 / (4 * pi))])"
  by (simp add: compute_flow_def PointDoublet_init_def PointDoublet_compute_flow_def py_add_def
      py_sub_def py_mul_def py_sq_def np_divide_def)

theorem flow_superposition_witness:
  "FlowField2D_grid (FlowField2D_init (Some 1) 1 0 (-1, 1) (-1, 1) 2 2)
     = Inr (NdArray [2, 2] [-1, 1, -1, 1], NdArray [2, 2] [-1, -1, 1, 1])
   \<and> (\<exists>U V. FlowField2D_flow (\<lambda>a. [PointDoublet_init 0 0 1 ''g''])
               (FlowField2D_init (Some 1) 1 0 (-1, 1) (-1, 1) 2 2) = Inr (U, V)
          \<and> shape U = Inr [2, 2] \<and> shape V = Inr [2, 2]
          \<and> cell U 0 = Finite 1 \<and> cell V 0 = Finite (- 1 / (4 * pi)))
   \<and> (\<exists>U V. FlowField2D_flow (\<lambda>a. [])
               (FlowField2D_init (Some 1) 1 0 (-1, 1) (-1, 1) 2 2) = Inr (U, V)
          \<and> (\<forall>k<4. cell U k = Finite 1 \<and> cell V k = Finite 0))"
proof -
  let ?f = "FlowField2D_init (Some 1) 1 0 (-1, 1) (-1, 1) 2 2"
  let ?h = "\<lambda>a::addr. [PointDoublet_init 0 0 1 ''g'']"
  let ?e = "\<lambda>a::addr. [] :: point list"
  let ?X = "NdArray [2, 2] [-1, 1, -1, 1 :: real]"
  let ?Y = "NdArray [2, 2] [-1, -1, 1, 1 :: real]"
  have g: "FlowField2D_grid ?f = Inr (?X, ?Y)"
    by (rule grid_2x2)
  from flow_superposition [OF g, of ?h] obtain U V where
    UV: "FlowField2D_flow ?h ?f = Inr (U, V)"
    and sh: "shape U = Inr [nat (ff_ny ?f), nat (ff_nx ?f)]" "shape V = Inr [nat (ff_ny ?f), nat (ff_nx ?f)]"
    and cells: "\<forall>k < nat (ff_ny ?f) * nat (ff_nx ?f).
                  cell U k = fl_add (Finite (ff_uinf ?f * cos (ff_alpha ?f)))
                    (fl_sum (map (\<lambda>p. cell (fst (projr (compute_flow p ?X ?Y))) k) (?h (ff_points ?f))))
                \<and> cell V k = fl_add (Finite (ff_uinf ?f * sin (ff_alpha ?f)))
                    (fl_sum (map (\<lambda>p. cell (snd (projr (compute_flow p ?X ?Y))) k) (?h (ff_points ?f))))"
    by blast
  have "cell U 0 = Finite 1 \<and> cell V 0 = Finite (- 1 / (4 * pi))"
    using cells [rule_format, of 0] by (simp add: FlowField2D_init_def doublet_flow_2x2)
  with UV sh have one: "\<exists>U V. FlowField2D_flow ?h ?f = Inr (U, V)
          \<and> shape U = Inr [2, 2] \<and> shape V = Inr [2, 2]
          \<and> cell U 0 = Finite 1 \<and> cell V 0 = Finite (- 1 / (4 * pi))"
    by (simp add: FlowField2D_init_def)
  from flow_superposition [OF g, of ?e] obtain U' V' where
    UV': "FlowField2D_flow ?e ?f = Inr (U', V')"
    and free: "ff_uinf ?f = 1 \<and> ff_alpha ?f = 0 \<and> ?e (ff_points ?f) = [] \<longrightarrow>
                (\<forall>k < nat (ff_ny ?f) * nat (ff_nx ?f). cell U' k = Finite 1 \<and> cell V' k = Finite 0)"
    by blast
  have "ff_uinf ?f = 1 \<and> ff_alpha ?f = 0 \<and> ?e (ff_points ?f) = []"
    by (simp add: init_fields)
  with free have "\<forall>k < nat (ff_ny ?f) * nat (ff_nx ?f). cell U' k = Finite 1 \<and> cell V' k = Finite 0"
    by blast
  with UV' have two: "\<exists>U V. FlowField2D_flow ?e ?f = Inr (U, V)
          \<and> (\<forall>k<4. cell U k = Finite 1 \<and> cell V k = Finite 0)"
    by (simp add: init_fields)
  from g one two show ?thesis by blast
qed

section \<open>Order of the singularities\<close>

lemma fl_add_swap: "fl_add (fl_add x a) b = fl_add (fl_add x b) a"
  by (cases x; cases a; cases b) simp_all

lemma map2_fl_add_swap:
  "map2 fl_add (map2 fl_add us as) bs = map2 fl_add (map2 fl_add us bs) as"
proof (rule nth_equalityI)
  show "length (map2 fl_add (map2 fl_add us as) bs) = length (map2 fl_add (map2 fl_add us bs) as)"
    by simp
next
  fix i assume "i < length (map2 fl_add (map2 fl_add us as) bs)"
  then have "i < length us" "i < length as" "i < length bs" by simp_all
  then show "map2 fl_add (map2 fl_add us as) bs ! i = map2 fl_add (map2 fl_add us bs) as ! i"
    by (simp add: fl_add_swap)
qed

lemma map_map2_fl_add:
  "map (\<lambda>x. fl_add x a) (map2 fl_add us bs) = map2 fl_add (map (\<lambda>x. fl_add x a) us) bs"
proof (rule nth_equalityI)
  show "length (map (\<lambda>x. fl_add x a) (map2 fl_add us bs)) = length (map2 fl_add (map (\<lambda>x. fl_add x a) us) bs)"
    by simp
next
  fix i assume "i < length (map (\<lambda>x. fl_add x a) (map2 fl_add us bs))"
  then have "i < length us" "i < length bs" by simp_all
  then have "map (\<lambda>x. fl_add x a) (map2 fl_add us bs) ! i = fl_add (fl_add (us ! i) (bs ! i)) a"
    and "map2 fl_add (map (\<lambda>x. fl_add x a) us) bs ! i = fl_add (fl_add (us ! i) a) (bs ! i)"
    by simp_all
  then show "map (\<lambda>x. fl_add x a) (map2 fl_add us bs) ! i = map2 fl_add (map (\<lambda>x. fl_add x a) us) bs ! i"
    by (simp only: fl_add_swap [of "us ! i" "bs ! i" a])
qed

lemma map_map_fl_add:
  "map (\<lambda>x. fl_add x a) (map (\<lambda>x. fl_add x b) us) = map (\<lambda>x. fl_add x b) (map (\<lambda>x. fl_add x a) us)"
  by (simp add: fl_add_swap [of _ b a])

text \<open>
  What an in-place addition to an array of shape \<open>s\<close> does with its operand: the
  accumulator keeps its shape, and the only error is the ValueError of an operand that
  does not broadcast to \<open>s\<close>.
\<close>

lemma np_iadd_array:
  "np_iadd (NdArray s ps) (PyFloat x) = Inr (NdArray s (map (\<lambda>a. fl_add a x) ps))"
  "t = s \<Longrightarrow> np_iadd (NdArray s ps) (NdArray t ys) = Inr (NdArray s (map2 fl_add ps ys))"
  "t \<noteq> s \<Longrightarrow> broadcast_shapes s t = Some s \<Longrightarrow>
     np_iadd (NdArray s ps) (NdArray t ys) = Inr (NdArray s (map2 fl_add ps (broadcast_to t s ys)))"
  "t \<noteq> s \<Longrightarrow> broadcast_shapes s t \<noteq> Some s \<Longrightarrow>
     np_iadd (NdArray s ps) (NdArray t ys) = Inl ValueError"
  by simp_all

lemma np_iadd_operand:
  "(\<exists>f. (\<forall>ps. np_iadd (NdArray s ps) r = Inr (NdArray s (f ps)))
        \<and> (\<forall>ps a. f (map (\<lambda>x. fl_add x a) ps) = map (\<lambda>x. fl_add x a) (f ps))
        \<and> (\<forall>ps as. f (map2 fl_add ps as) = map2 fl_add (f ps) as))
   \<or> (\<forall>ps. np_iadd (NdArray s ps) r = Inl ValueError)"
proof (cases r)
  case (PyFloat x)
  let ?f = "\<lambda>ps. map (\<lambda>a. fl_add a x) ps"
  have "\<forall>ps. np_iadd (NdArray s ps) r = Inr (NdArray s (?f ps))"
    using PyFloat by simp
  moreover have "\<forall>ps a. ?f (map (\<lambda>b. fl_add b a) ps) = map (\<lambda>b. fl_add b a) (?f ps)"
    using map_map_fl_add by blast
  moreover have "\<forall>ps as. ?f (map2 fl_add ps as) = map2 fl_add (?f ps) as"
    using map_map2_fl_add by blast
  ultimately show ?thesis
    by (intro disjI1 exI [of _ ?f] conjI)
next
  case (NdArray t ys)
  have arr: ?thesis
    if "\<forall>ps. np_iadd (NdArray s ps) r = Inr (NdArray s (map2 fl_add ps zs))" for zs
  proof -
    let ?f = "\<lambda>ps. map2 fl_add ps zs"
    have "\<forall>ps a. ?f (map (\<lambda>b. fl_add b a) ps) = map (\<lambda>b. fl_add b a) (?f ps)"
      using map_map2_fl_add [symmetric] by blast
    moreover have "\<forall>ps as. ?f (map2 fl_add ps as) = map2 fl_add (?f ps) as"
      using map2_fl_add_swap by blast
    ultimately show ?thesis using that
      by (intro disjI1 exI [of _ ?f] conjI)
  qed
  consider "t = s" | "t \<noteq> s" "broadcast_shapes s t = Some s" | "t \<noteq> s" "broadcast_shapes s t \<noteq> Some s"
    by blast
  then show ?thesis
  proof cases
    case 1
    then show ?thesis using NdArray by (intro arr [of ys]) simp
  next
    case 2
    then show ?thesis using NdArray by (intro arr [of "broadcast_to t s ys"]) simp
  next
    case 3
    then show ?thesis using NdArray by simp
  qed
qed

lemma np_iadd_swap:
  "pybind (np_iadd (NdArray s ps) a) (\<lambda>c. np_iadd c b)
     = pybind (np_iadd (NdArray s ps) b) (\<lambda>c. np_iadd c a)"
proof -
  from np_iadd_operand [of s a] np_iadd_operand [of s b] show ?thesis
  proof (elim disjE exE conjE)
    fix f g
    assume f: "\<forall>ps. np_iadd (NdArray s ps) a = Inr (NdArray s (f ps))"
      and g: "\<forall>ps. np_iadd (NdArray s ps) b = Inr (NdArray s (g ps))"
      and fs: "\<forall>ps a. f (map (\<lambda>x. fl_add x a) ps) = map (\<lambda>x. fl_add x a) (f ps)"
      and fm: "\<forall>ps as. f (map2 fl_add ps as) = map2 fl_add (f ps) as"
      and gs: "\<forall>ps a. g (map (\<lambda>x. fl_add x a) ps) = map (\<lambda>x. fl_add x a) (g ps)"
      and gm: "\<forall>ps as. g (map2 fl_add ps as) = map2 fl_add (g ps) as"
    have "g (f ps) = f (g ps)"
    proof (cases a)
      case (PyFloat x)
      with f have "f ps = map (\<lambda>c. fl_add c x) ps" "f (g ps) = map (\<lambda>c. fl_add c x) (g ps)"
        by simp_all
      with gs show ?thesis by simp
    next
      case (NdArray t xs)
      show ?thesis
      proof (cases "t = s")
        case True
        with f NdArray have "f ps = map2 fl_add ps xs" "f (g ps) = map2 fl_add (g ps) xs"
          by simp_all
        with gm show ?thesis by simp
      next
        case False
        with f NdArray have "f ps = map2 fl_add ps (broadcast_to t s xs)"
          "f (g ps) = map2 fl_add (g ps) (broadcast_to t s xs)"
          by (simp_all split: if_splits)
        with gm show ?thesis by simp
      qed
    qed
    with f g show ?thesis by simp
  next
    fix f
    assume "\<forall>ps. np_iadd (NdArray s ps) a = Inr (NdArray s (f ps))"
      and "\<forall>ps. np_iadd (NdArray s ps) b = Inl ValueError"
    then show ?thesis by simp
  next
    fix g
    assume "\<forall>ps. np_iadd (NdArray s ps) a = Inl ValueError"
      and "\<forall>ps. np_iadd (NdArray s ps) b = Inr (NdArray s (g ps))"
    then show ?thesis by simp
  next
    assume "\<forall>ps. np_iadd (NdArray s ps) a = Inl ValueError"
      and "\<forall>ps. np_iadd (NdArray s ps) b = Inl ValueError"
    then show ?thesis by simp
  qed
qed

text \<open>
  Two fields with the same freestream and grid configuration, one holding the
  singularities \<open>[A, B]\<close> and the other \<open>[B, A]\<close>, have the same composite velocity
  field, and whichever stream function array one of them produces, the other produces
  the same array.
\<close>

lemma superposition_order_independent:
  assumes p1: "h (ff_points f1) = [A, B]" and p2: "h (ff_points f2) = [B, A]"
    and cfg: "ff_uinf f2 = ff_uinf f1" "ff_alpha f2 = ff_alpha f1"
      "ff_xlim f2 = ff_xlim f1" "ff_ylim f2 = ff_ylim f1"
      "ff_nx f2 = ff_nx f1" "ff_ny f2 = ff_ny f1"
  shows "FlowField2D_flow h f2 = FlowField2D_flow h f1
       \<and> (\<forall>P. FlowField2D_psi cv h f2 = Inr P \<longleftrightarrow> FlowField2D_psi cv h f1 = Inr P)"
proof -
  have grid_eq: "FlowField2D_grid f2 = FlowField2D_grid f1"
    by (simp add: FlowField2D_grid_def FlowField2D_x_values_def FlowField2D_y_values_def cfg)
  have x_eq: "FlowField2D_x f2 = FlowField2D_x f1" and y_eq: "FlowField2D_y f2 = FlowField2D_y f1"
    by (simp_all add: FlowField2D_x_def FlowField2D_y_def grid_eq)
  show ?thesis
  proof (cases "FlowField2D_grid f1")
    case (Inl e)
    then have "FlowField2D_x f1 = Inl e" "FlowField2D_y f1 = Inl e"
      by (simp_all add: FlowField2D_x_def FlowField2D_y_def)
    then show ?thesis
      by (simp add: FlowField2D_flow_def FlowField2D_psi_def x_eq y_eq)
  next
    case (Inr g)
    then obtain X Y where g1: "FlowField2D_grid f1 = Inr (X, Y)"
      by (cases g) simp
    from grid_arrays [OF g1] obtain s xs ys where X: "X = NdArray s xs" and Y: "Y = NdArray s ys"
      and lxy: "length xs = length ys"
      by auto
    have g1': "FlowField2D_grid f1 = Inr (NdArray s xs, NdArray s ys)"
      using g1 X Y by simp
    have g2': "FlowField2D_grid f2 = Inr (NdArray s xs, NdArray s ys)"
      using g1' grid_eq by simp
    from compute_flow_arrays [OF lxy, of A s] obtain au av where
      cA: "compute_flow A (NdArray s xs) (NdArray s ys) = Inr (NdArray s au, NdArray s av)"
      by blast
    from compute_flow_arrays [OF lxy, of B s] obtain bu bv where
      cB: "compute_flow B (NdArray s xs) (NdArray s ys) = Inr (NdArray s bu, NdArray s bv)"
      by blast
    have flow: "FlowField2D_flow h f2 = FlowField2D_flow h f1"
      using g1' g2' cA cB p1 p2
      by (simp add: FlowField2D_flow_def FlowField2D_freestream_def np_ones_def cfg
          map2_fl_add_swap [of _ au bu] map2_fl_add_swap [of _ av bv])
    let ?ps = "map (\<lambda>a. Finite (ff_uinf f1 * a))
                 (map2 (-) (map (\<lambda>a. a * cos (ff_alpha f1)) ys) (map (\<lambda>a. a * sin (ff_alpha f1)) xs))"
    let ?rA = "compute_psi cv A (NdArray s xs) (NdArray s ys)"
    let ?rB = "compute_psi cv B (NdArray s xs) (NdArray s ys)"
    have psi1: "FlowField2D_psi cv h f1 =
        pybind ?rA (\<lambda>a. pybind (np_iadd (NdArray s ?ps) a) (\<lambda>c. pybind ?rB (\<lambda>b. np_iadd c b)))"
      using g1' p1 by (simp add: FlowField2D_psi_def py_sub_def pybind_def split: sum.splits)
    have psi2: "FlowField2D_psi cv h f2 =
        pybind ?rB (\<lambda>b. pybind (np_iadd (NdArray s ?ps) b) (\<lambda>c. pybind ?rA (\<lambda>a. np_iadd c a)))"
      using g2' p2 by (simp add: FlowField2D_psi_def py_sub_def cfg pybind_def split: sum.splits)
    have psi: "FlowField2D_psi cv h f2 = Inr P \<longleftrightarrow> FlowField2D_psi cv h f1 = Inr P" for P
    proof (cases ?rA)
      case (Inl ea)
      then show ?thesis unfolding psi1 psi2 by (simp add: pybind_def split: sum.splits)
    next
      case a: (Inr a)
      show ?thesis
      proof (cases ?rB)
        case (Inl eb)
        then show ?thesis unfolding psi1 psi2 by (simp add: pybind_def split: sum.splits)
      next
        case b: (Inr b)
        show ?thesis unfolding psi1 psi2 a b
          using np_iadd_swap [of s ?ps a b] by simp
      qed
    qed
    from flow psi show ?thesis by blast
  qed
qed

lemma np_linspace_0: "np_linspace a b 0 = Inr []"
  by (simp add: np_linspace_def)

lemma np_linspace_1: "np_linspace a b 1 = Inr [a]"
  by (simp add: np_linspace_def)

section \<open>Configurations the grid accepts\<close>

text \<open>
  An inverted \<open>xlim\<close> with a degenerate \<open>ylim\<close>, and a sample count of zero: in both
  cases the grid is returned, reversed and constant in the first, empty in the second.
\<close>

theorem grid_unvalidated_counterexample:
  "FlowField2D_grid (FlowField2D_init None 0 0 (1, -1) (1, 1) 2 2)
     = Inr (NdArray [2, 2] [1, -1, 1, -1], NdArray [2, 2] [1, 1, 1, 1])
   \<and> FlowField2D_grid (FlowField2D_init None 0 0 (-1, 1) (-1, 1) 0 2)
     = Inr (NdArray [2, 0] [], NdArray [2, 0] [])"
  by (simp add: FlowField2D_grid_def FlowField2D_x_values_def FlowField2D_y_values_def
      FlowField2D_init_def np_linspace_2 np_linspace_0 np_meshgrid_def eval_nat_numeral)

text \<open>
  C8, as the code has it. The constructor stores its arguments unchecked. Grid generation
  raises exactly when \<open>nx\<close> or \<open>ny\<close> is negative, and the error is the ValueError of
  \<open>numpy.linspace\<close>; for every other configuration, whatever the limits, it returns two
  arrays of shape \<open>(ny, nx)\<close>.
\<close>

theorem grid_raises_iff_negative_count:
  "(\<forall>e. FlowField2D_grid self = Inl e \<longleftrightarrow> (ff_nx self < 0 \<or> ff_ny self < 0) \<and> e = ValueError)
   \<and> (0 \<le> ff_nx self \<and> 0 \<le> ff_ny self \<longrightarrow>
        (\<exists>xs ys. FlowField2D_grid self
                    = Inr (NdArray [nat (ff_ny self), nat (ff_nx self)] xs,
                           NdArray [nat (ff_ny self), nat (ff_nx self)] ys)
             \<and> length xs = nat (ff_ny self) * nat (ff_nx self)
             \<and> length ys = nat (ff_ny self) * nat (ff_nx self)))"
proof -
  have "\<exists>xs ys. FlowField2D_grid self
                    = Inr (NdArray [nat (ff_ny self), nat (ff_nx self)] xs,
                           NdArray [nat (ff_ny self), nat (ff_nx self)] ys)
             \<and> length xs = nat (ff_ny self) * nat (ff_nx self)
             \<and> length ys = nat (ff_ny self) * nat (ff_nx self)"
    if "0 \<le> ff_nx self" "0 \<le> ff_ny self"
  proof (cases "FlowField2D_grid self")
    case (Inl e)
    with that show ?thesis by (simp add: grid_isl)
  next
    case (Inr g)
    then obtain X Y where g: "FlowField2D_grid self = Inr (X, Y)" by (cases g) simp
    from grid_arrays [OF g] g show ?thesis by auto
  qed
  then show ?thesis using grid_isl by blast
qed

theorem grid_raises_iff_negative_count_witness:
  "FlowField2D_grid (FlowField2D_init None 0 0 (-1, 1) (-1, 1) (-1) 2) = Inl ValueError
   \<and> (\<exists>xs ys. FlowField2D_grid (FlowField2D_init None 0 0 (1, -1) (-1, 1) 0 2)
                 = Inr (NdArray [2, 0] xs, NdArray [2, 0] ys) \<and> xs = [] \<and> ys = [])"
proof -
  let ?bad = "FlowField2D_init None 0 0 (-1, 1) (-1, 1) (-1) 2"
  let ?empty = "FlowField2D_init None 0 0 (1, -1) (-1, 1) 0 2"
  have "ff_nx ?bad < 0" by (simp add: FlowField2D_init_def)
  with grid_raises_iff_negative_count [of ?bad]
  have one: "FlowField2D_grid ?bad = Inl ValueError" by blast
  have "0 \<le> ff_nx ?empty \<and> 0 \<le> ff_ny ?empty" by (simp add: FlowField2D_init_def)
  with grid_raises_iff_negative_count [of ?empty]
  have "\<exists>xs ys. FlowField2D_grid ?empty
                    = Inr (NdArray [nat (ff_ny ?empty), nat (ff_nx ?empty)] xs,
                           NdArray [nat (ff_ny ?empty), nat (ff_nx ?empty)] ys)
             \<and> length xs = nat (ff_ny ?empty) * nat (ff_nx ?empty)
             \<and> length ys = nat (ff_ny ?empty) * nat (ff_nx ?empty)"
    by blast
  then have two: "\<exists>xs ys. FlowField2D_grid ?empty = Inr (NdArray [2, 0] xs, NdArray [2, 0] ys) \<and> xs = [] \<and> ys = []"
    by (simp add: FlowField2D_init_def)
  from one two show ?thesis by blast
qed

section \<open>The mesh\<close>

text \<open>
  With \<open>nx = 1\<close> over \<open>xlim = (-1, 2)\<close> the only column carries \<open>x = -1\<close>: the upper
  limit is not sampled.
\<close>

theorem grid_single_column_counterexample:
  "FlowField2D_grid (FlowField2D_init None 0 0 (-1, 2) (-1, 1) 1 1)
     = Inr (NdArray [1, 1] [-1], NdArray [1, 1] [-1])"
  by (simp add: FlowField2D_grid_def FlowField2D_x_values_def FlowField2D_y_values_def
      FlowField2D_init_def np_linspace_1 np_meshgrid_def)

text \<open>
  C9, as the code has it. For positive \<open>nx\<close> and \<open>ny\<close> the grid is two arrays of shape
  \<open>(ny, nx)\<close>; the cell in row \<open>i\<close> and column \<open>j\<close> holds
  \<open>x = xlim[0] + j (xlim[1] - xlim[0]) / (nx - 1)\<close> and
  \<open>y = ylim[0] + i (ylim[1] - ylim[0]) / (ny - 1)\<close>, and with a single sample the lower
  limit. So the first column carries \<open>xlim[0]\<close>, and the last one \<open>xlim[1]\<close> as soon as
  \<open>nx\<close> is at least 2; likewise for the rows.
\<close>

theorem grid_mesh:
  assumes nx: "0 < ff_nx self" and ny: "0 < ff_ny self"
  shows "\<exists>xs ys. FlowField2D_grid self
                   = Inr (NdArray [nat (ff_ny self), nat (ff_nx self)] xs,
                          NdArray [nat (ff_ny self), nat (ff_nx self)] ys)
           \<and> length xs = nat (ff_ny self) * nat (ff_nx self)
           \<and> length ys = nat (ff_ny self) * nat (ff_nx self)
           \<and> (\<forall>i < nat (ff_ny self). \<forall>j < nat (ff_nx self).
                  xs ! (i * nat (ff_nx self) + j)
                    = (if ff_nx self = 1 then fst (ff_xlim self)
                       else fst (ff_xlim self)
                            + real j * (snd (ff_xlim self) - fst (ff_xlim self)) / real_of_int (ff_nx self - 1))
                \<and> ys ! (i * nat (ff_nx self) + j)
                    = (if ff_ny self = 1 then fst (ff_ylim self)
                       else fst (ff_ylim self)
                            + real i * (snd (ff_ylim self) - fst (ff_ylim self)) / real_of_int (ff_ny self - 1)))
           \<and> (\<forall>i < nat (ff_ny self).
                  xs ! (i * nat (ff_nx self)) = fst (ff_xlim self)
                \<and> (1 < ff_nx self \<longrightarrow>
                     xs ! (i * nat (ff_nx self) + (nat (ff_nx self) - 1)) = snd (ff_xlim self)))
           \<and> (\<forall>j < nat (ff_nx self).
                  ys ! j = fst (ff_ylim self)
                \<and> (1 < ff_ny self \<longrightarrow>
                     ys ! ((nat (ff_ny self) - 1) * nat (ff_nx self) + j) = snd (ff_ylim self)))"
proof -
  let ?nx = "nat (ff_nx self)" and ?ny = "nat (ff_ny self)"
  let ?fx = "\<lambda>j::nat. if ff_nx self = 1 then fst (ff_xlim self)
               else fst (ff_xlim self)
                    + real j * (snd (ff_xlim self) - fst (ff_xlim self)) / real_of_int (ff_nx self - 1)"
  let ?fy = "\<lambda>i::nat. if ff_ny self = 1 then fst (ff_ylim self)
               else fst (ff_ylim self)
                    + real i * (snd (ff_ylim self) - fst (ff_ylim self)) / real_of_int (ff_ny self - 1)"
  from nx ny obtain X Y where g: "FlowField2D_grid self = Inr (X, Y)"
    using grid_isl [of self] by (cases "FlowField2D_grid self") auto
  from grid_Inr [OF g] obtain xv yv where
    xv: "FlowField2D_x_values self = Inr xv" and yv: "FlowField2D_y_values self = Inr yv"
    and lxv: "length xv = ?nx" and lyv: "length yv = ?ny"
    and X: "X = NdArray [?ny, ?nx] (concat (replicate (length yv) xv))"
    and Y: "Y = NdArray [?ny, ?nx] (concat (map (replicate (length xv)) yv))"
    by blast
  let ?xs = "concat (replicate (length yv) xv)" and ?ys = "concat (map (replicate (length xv)) yv)"
  have xvj: "xv ! j = ?fx j" if "j < ?nx" for j
    using np_linspace_nth [OF xv [unfolded FlowField2D_x_values_def] that] .
  have yvi: "yv ! i = ?fy i" if "i < ?ny" for i
    using np_linspace_nth [OF yv [unfolded FlowField2D_y_values_def] that] .
  have cx: "?xs ! (i * ?nx + j) = ?fx j" if "i < ?ny" "j < ?nx" for i j
    using nth_concat_replicate [of i "length yv" j xv] that lxv lyv xvj by simp
  have cy: "?ys ! (i * ?nx + j) = ?fy i" if "i < ?ny" "j < ?nx" for i j
    using nth_concat_map_replicate [of i yv j "length xv"] that lxv lyv yvi by simp
  have pos: "0 < ?nx" "0 < ?ny" using nx ny by simp_all
  have lastx: "?fx (?nx - 1) = snd (ff_xlim self)" if "1 < ff_nx self"
  proof -
    have "real (?nx - 1) = real_of_int (ff_nx self - 1)" using that by (simp add: of_nat_diff)
    moreover have "real_of_int (ff_nx self - 1) \<noteq> 0" using that by simp
    ultimately show ?thesis using that by simp
  qed
  have lasty: "?fy (?ny - 1) = snd (ff_ylim self)" if "1 < ff_ny self"
  proof -
    have "real (?ny - 1) = real_of_int (ff_ny self - 1)" using that by (simp add: of_nat_diff)
    moreover have "real_of_int (ff_ny self - 1) \<noteq> 0" using that by simp
    ultimately show ?thesis using that by simp
  qed
  have ex: "\<forall>i < ?ny. ?xs ! (i * ?nx) = fst (ff_xlim self)
              \<and> (1 < ff_nx self \<longrightarrow> ?xs ! (i * ?nx + (?nx - 1)) = snd (ff_xlim self))"
  proof (intro allI impI conjI)
    fix i assume i: "i < ?ny"
    from cx [OF i pos(1)] show "?xs ! (i * ?nx) = fst (ff_xlim self)" by simp
    assume "1 < ff_nx self"
    with cx [OF i, of "?nx - 1"] pos lastx
    show "?xs ! (i * ?nx + (?nx - 1)) = snd (ff_xlim self)" by simp
  qed
  have ey: "\<forall>j < ?nx. ?ys ! j = fst (ff_ylim self)
              \<and> (1 < ff_ny self \<longrightarrow> ?ys ! ((?ny - 1) * ?nx + j) = snd (ff_ylim self))"
  proof (intro allI impI conjI)
    fix j assume j: "j < ?nx"
    from cy [OF pos(2) j] show "?ys ! j = fst (ff_ylim self)" by simp
    assume "1 < ff_ny self"
    with cy [of "?ny - 1", OF _ j] pos lasty
    show "?ys ! ((?ny - 1) * ?nx + j) = snd (ff_ylim self)" by simp
  qed
  have len: "length ?xs = ?ny * ?nx" "length ?ys = ?ny * ?nx"
    using lxv lyv by (simp_all add: length_concat_replicate length_concat_map_replicate)
  have "FlowField2D_grid self = Inr (NdArray [?ny, ?nx] ?xs, NdArray [?ny, ?nx] ?ys)"
    using g X Y by simp
  with len cx cy ex ey show ?thesis by blast
qed

theorem grid_mesh_witness:
  "\<exists>xs ys. FlowField2D_grid (FlowField2D_init None 0 0 (-1, 2) (-1, 1) 300 300)
              = Inr (NdArray [300, 300] xs, NdArray [300, 300] ys)
      \<and> length xs = 90000 \<and> length ys = 90000
      \<and> xs ! 0 = -1 \<and> xs ! 299 = 2 \<and> xs ! 89700 = -1 \<and> xs ! 89999 = 2
      \<and> ys ! 0 = -1 \<and> ys ! 89999 = 1"
proof -
  let ?f = "FlowField2D_init None 0 0 (-1, 2) (-1, 1) 300 300"
  have f: "ff_nx ?f = 300" "ff_ny ?f = 300" "ff_xlim ?f = (-1, 2)" "ff_ylim ?f = (-1, 1)"
    by (simp_all add: FlowField2D_init_def)
  have "0 < ff_nx ?f" "0 < ff_ny ?f" by (simp_all add: f)
  from grid_mesh [OF this] obtain xs ys where
    g: "FlowField2D_grid ?f = Inr (NdArray [300, 300] xs, NdArray [300, 300] ys)"
    and len: "length xs = 300 * 300" "length ys = 300 * 300"
    and ex: "\<forall>i < 300. xs ! (i * 300) = -1 \<and> xs ! (i * 300 + 299) = 2"
    and ey: "\<forall>j < 300. ys ! j = -1 \<and> ys ! (299 * 300 + j) = 1"
    unfolding f by auto
  from ex [rule_format, of 0] ex [rule_format, of 299] ey [rule_format, of 0] ey [rule_format, of 299]
  have "xs ! 0 = -1 \<and> xs ! 299 = 2 \<and> xs ! 89700 = -1 \<and> xs ! 89999 = 2 \<and> ys ! 0 = -1 \<and> ys ! 89999 = 1"
    by simp
  with g len show ?thesis by simp
qed

section \<open>Evaluation on a grid through a singularity\<close>

lemma np_linspace_3: "np_linspace a b 3 = Inr [a, a + (b - a) / 2, b]"
  by (simp add: np_linspace_def Let_def upt_rec)

lemma grid_3x3:
  "FlowField2D_grid (FlowField2D_init pa uinf alpha (-1, 1) (-1, 1) 3 3)
     = Inr (NdArray [3, 3] [-1, 0, 1, -1, 0, 1, -1, 0, 1], NdArray [3, 3] [-1, -1, -1, 0, 0, 0, 1, 1, 1])"
  by (simp add: FlowField2D_grid_def FlowField2D_x_values_def FlowField2D_y_values_def
      FlowField2D_init_def np_linspace_3 np_meshgrid_def eval_nat_numeral)

text \<open>
  C4. A 3 by 3 grid over \<open>[-1, 1]\<close> squared has the origin as its centre cell. With a
  vortex at the origin the velocity field is produced, non-finite in the centre cell only,
  but the stream function raises TypeError: \<open>math.log\<close> is applied to an array of nine
  elements. With a source at the origin the stream function raises AttributeError.
\<close>

theorem psi_raises_on_grid:
  "FlowField2D_psi cv (\<lambda>a. [PointVortex_init 0 0 1 ''c''])
     (FlowField2D_init (Some 1) 0 0 (-1, 1) (-1, 1) 3 3) = Inl TypeError
   \<and> FlowField2D_psi cv (\<lambda>a. [PointSource_init 0 0 1 ''r''])
     (FlowField2D_init (Some 1) 0 0 (-1, 1) (-1, 1) 3 3) = Inl AttributeError
   \<and> FlowField2D_flow (\<lambda>a. [PointVortex_init 0 0 1 ''c''])
     (FlowField2D_init (Some 1) 0 0 (-1, 1) (-1, 1) 3 3)
     = Inr (NdArray [3, 3] [Finite (- 1 / (4 * pi)), Finite (- 1 / (2 * pi)), Finite (- 1 / (4 * pi)),
                            Finite 0, NonFinite, Finite 0,
                            Finite (1 / (4 * pi)), Finite (1 / (2 * pi)), Finite (1 / (4 * pi))],
            NdArray [3, 3] [Finite (1 / (4 * pi)), Finite 0, Finite (- 1 / (4 * pi)),
                            Finite (1 / (2 * pi)), NonFinite, Finite (- 1 / (2 * pi)),
                            Finite (1 / (4 * pi)), Finite 0, Finite (- 1 / (4 * pi))])"
  by (simp add: FlowField2D_psi_def FlowField2D_flow_def FlowField2D_freestream_def
      grid_x [OF grid_3x3] grid_y [OF grid_3x3] py_sub_def py_add_def py_sq_def np_ones_def
      compute_psi_def compute_flow_def PointVortex_compute_psi_def PointVortex_compute_flow_def
      PointSource_compute_psi_def PointVortex_init_def PointSource_init_def getattr_def
      np_divide_def init_fields eval_nat_numeral)

text \<open>
  C3. Off the singularity, \<open>compute_psi\<close> of a vortex raises TypeError on an array of two
  points, and \<open>compute_psi\<close> of a source raises AttributeError on a single point and on
  an array.
\<close>

theorem psi_raises_on_inputs:
  "compute_psi cv (PointVortex_init 0 0 1 ''c'') (NdArray [2] [1, 2]) (NdArray [2] [0, 0]) = Inl TypeError
   \<and> compute_psi cv (PointSource_init 0 0 1 ''r'') (PyFloat 1) (PyFloat 0) = Inl AttributeError
   \<and> compute_psi cv (PointSource_init 0 0 1 ''r'') (NdArray [2] [1, 2]) (NdArray [2] [0, 0])
       = Inl AttributeError"
  by (simp add: compute_psi_def PointVortex_init_def PointSource_init_def
      PointVortex_compute_psi_def PointSource_compute_psi_def getattr_def py_add_def py_sq_def)

section \<open>The stream function of a field with a source or a vortex\<close>

lemma math_log_array:
  "length zs \<noteq> 1 \<Longrightarrow> math_log cv (NdArray s zs) = Inl TypeError"
proof (cases zs)
  case Nil
  then show ?thesis by simp
next
  case (Cons z zs')
  assume "length zs \<noteq> 1"
  with Cons obtain z' zs'' where "zs' = z' # zs''" by (cases zs') auto
  with Cons show ?thesis by simp
qed

lemma source_psi_raises:
  "pt_cls p = PointSource \<Longrightarrow> compute_psi cv p x y = Inl AttributeError"
  by (simp add: compute_psi_def PointSource_compute_psi_def getattr_def)

lemma vortex_psi_raises:
  "pt_cls p = PointVortex \<Longrightarrow> length xs = length ys \<Longrightarrow> length xs \<noteq> 1 \<Longrightarrow>
     compute_psi cv p (NdArray s xs) (NdArray s ys) = Inl TypeError"
  by (simp add: compute_psi_def PointVortex_compute_psi_def py_add_def py_sq_def math_log_array)

text \<open>
  On a grid of any number of cells other than one, a stream function is produced only
  for a field all of whose singularities are doublets.
\<close>

lemma psi_only_doublets:
  assumes g: "FlowField2D_grid self = Inr (X, Y)"
    and n: "nat (ff_ny self) * nat (ff_nx self) \<noteq> 1"
    and P: "FlowField2D_psi cv h self = Inr P"
  shows "\<forall>p\<in>set (h (ff_points self)). pt_cls p = PointDoublet"
proof
  fix p assume p: "p \<in> set (h (ff_points self))"
  from grid_arrays [OF g] obtain xs ys where
    X: "X = NdArray [nat (ff_ny self), nat (ff_nx self)] xs"
    and Y: "Y = NdArray [nat (ff_ny self), nat (ff_nx self)] ys"
    and lx: "length xs = nat (ff_ny self) * nat (ff_nx self)"
    and ly: "length ys = nat (ff_ny self) * nat (ff_nx self)"
    by blast
  from psi_superposition [OF g, of cv h] P p obtain r where r: "compute_psi cv p X Y = Inr r"
    by blast
  show "pt_cls p = PointDoublet"
  proof (cases "pt_cls p")
    case PointDoublet
    then show ?thesis .
  next
    case PointSource
    with r source_psi_raises [of p cv X Y] show ?thesis by simp
  next
    case PointVortex
    with r vortex_psi_raises [of p xs ys cv "[nat (ff_ny self), nat (ff_nx self)]"] X Y lx ly n
    show ?thesis by simp
  qed
qed

text \<open>
  C5. The composite stream function is specified, for every field, as the freestream
  term plus the sum of the singularities' \<open>compute_psi\<close> values. For the source and sink
  pair of the repository's \<open>simple_freestream\<close> example, on a grid that avoids both
  singularities, the code produces no stream function: it raises AttributeError. For a
  field of one vortex it raises TypeError.
\<close>

theorem psi_raises_for_source_pair:
  "FlowField2D_psi cv (\<lambda>a. [PointSource_init 0 0 1 ''r'', PointSource_init 1 0 (- 1) ''r''])
     (FlowField2D_init (Some 1) 1 0 (-1, 2) (-1, 1) 2 2) = Inl AttributeError
   \<and> FlowField2D_psi cv (\<lambda>a. [PointVortex_init 0 0 1 ''c''])
     (FlowField2D_init (Some 1) 1 0 (-1, 1) (-1, 1) 2 2) = Inl TypeError"
  by (simp add: FlowField2D_psi_def grid_x [OF grid_2x2] grid_y [OF grid_2x2] init_fields
      py_sub_def source_psi_raises vortex_psi_raises PointSource_init_def PointVortex_init_def)

text \<open>
  C7. The two orders of a pair are specified to yield the same \<open>u\<close>, \<open>v\<close> and \<open>psi\<close>
  arrays. For a vortex and a source, with the list \<open>[vortex, source]\<close> at address 1 and
  \<open>[source, vortex]\<close> at address 2, neither field yields a \<open>psi\<close> array: the first
  raises TypeError and the second AttributeError. The velocity fields are produced and
  are equal.
\<close>

theorem psi_raises_in_both_orders:
  "FlowField2D_psi cv
     (\<lambda>a. if a = 1 then [PointVortex_init 0 0 1 ''c'', PointSource_init 0 0 1 ''r'']
           else [PointSource_init 0 0 1 ''r'', PointVortex_init 0 0 1 ''c''])
     (FlowField2D_init (Some 1) 0 0 (-1, 1) (-1, 1) 2 2) = Inl TypeError
   \<and> FlowField2D_psi cv
     (\<lambda>a. if a = 1 then [PointVortex_init 0 0 1 ''c'', PointSource_init 0 0 1 ''r'']
           else [PointSource_init 0 0 1 ''r'', PointVortex_init 0 0 1 ''c''])
     (FlowField2D_init (Some 2) 0 0 (-1, 1) (-1, 1) 2 2) = Inl AttributeError
   \<and> FlowField2D_flow
     (\<lambda>a. if a = 1 then [PointVortex_init 0 0 1 ''c'', PointSource_init 0 0 1 ''r'']
           else [PointSource_init 0 0 1 ''r'', PointVortex_init 0 0 1 ''c''])
     (FlowField2D_init (Some 2) 0 0 (-1, 1) (-1, 1) 2 2)
     = FlowField2D_flow
     (\<lambda>a. if a = 1 then [PointVortex_init 0 0 1 ''c'', PointSource_init 0 0 1 ''r'']
           else [PointSource_init 0 0 1 ''r'', PointVortex_init 0 0 1 ''c''])
     (FlowField2D_init (Some 1) 0 0 (-1, 1) (-1, 1) 2 2)"
proof -
  let ?V = "PointVortex_init 0 0 1 ''c''" and ?S = "PointSource_init 0 0 1 ''r''"
  let ?h = "\<lambda>a::addr. if a = 1 then [?V, ?S] else [?S, ?V]"
  let ?f1 = "FlowField2D_init (Some 1) 0 0 (-1, 1) (-1, 1) 2 2"
  let ?f2 = "FlowField2D_init (Some 2) 0 0 (-1, 1) (-1, 1) 2 2"
  have p1: "?h (ff_points ?f1) = [?V, ?S]" and p2: "?h (ff_points ?f2) = [?S, ?V]"
    by (simp_all add: init_fields)
  have one: "FlowField2D_psi cv ?h ?f1 = Inl TypeError"
    unfolding FlowField2D_psi_def p1
    by (simp add: grid_x [OF grid_2x2] grid_y [OF grid_2x2] init_fields py_sub_def
        vortex_psi_raises PointVortex_init_def)
  have two: "FlowField2D_psi cv ?h ?f2 = Inl AttributeError"
    unfolding FlowField2D_psi_def p2
    by (simp add: grid_x [OF grid_2x2] grid_y [OF grid_2x2] init_fields py_sub_def
        source_psi_raises PointSource_init_def)
  have "FlowField2D_flow ?h ?f2 = FlowField2D_flow ?h ?f1"
    using superposition_order_independent [OF p1 p2, of cv] by (simp add: init_fields)
  with one two show ?thesis by blast
qed

section \<open>The default singularity list\<close>

text \<open>
  C10. Two fields constructed without a \<open>points\<close> argument refer to the same list.
  Starting from a heap of empty lists, appending a doublet to the list of the first field
  makes it an element of the list of the second, whose stream function changes with it.
\<close>

theorem default_points_shared:
  "ff_points (FlowField2D_init None 0 0 (-1, 1) (-1, 1) 2 2)
     = ff_points (FlowField2D_init None 1 0 (-1, 1) (-1, 1) 2 2)
   \<and> (\<lambda>a. []) (ff_points (FlowField2D_init None 1 0 (-1, 1) (-1, 1) 2 2)) = ([] :: point list)
   \<and> list_append (\<lambda>a. []) (ff_points (FlowField2D_init None 0 0 (-1, 1) (-1, 1) 2 2))
        (PointDoublet_init 0 0 1 ''g'')
        (ff_points (FlowField2D_init None 1 0 (-1, 1) (-1, 1) 2 2))
     = [PointDoublet_init 0 0 1 ''g'']
   \<and> FlowField2D_psi cv (\<lambda>a. []) (FlowField2D_init None 1 0 (-1, 1) (-1, 1) 2 2)
     = Inr (NdArray [2, 2] [Finite (- 1), Finite (- 1), Finite 1, Finite 1])
   \<and> FlowField2D_psi cv
        (list_append (\<lambda>a. []) (ff_points (FlowField2D_init None 0 0 (-1, 1) (-1, 1) 2 2))
           (PointDoublet_init 0 0 1 ''g''))
        (FlowField2D_init None 1 0 (-1, 1) (-1, 1) 2 2)
     = Inr (NdArray [2, 2] [Finite (- 1 + 1 / (4 * pi)), Finite (- 1 + 1 / (4 * pi)),
                            Finite (1 - 1 / (4 * pi)), Finite (1 - 1 / (4 * pi))])"
  by (simp add: FlowField2D_psi_def grid_x [OF grid_2x2] grid_y [OF grid_2x2] init_fields
      list_append_def py_sub_def doublet_psi_2x2)


end
